theory Spec2Isabelle
  imports Complex_Main "HOL-Library.AList" "HOL-Library.Multiset"
begin

section \<open>The scoring engine of lib/analyzer.ts\<close>

text \<open>
  The engine is the chain \<open>analyzeToken\<close> \<open>\<rightarrow>\<close> \<open>analyzeBundlingPatterns\<close> \<open>\<rightarrow>\<close> the four
  sub-score functions, \<open>countSuspiciousWallets\<close>, \<open>generateInsights\<close> and
  \<open>getPeriodString\<close>.

  Numbers: a timestamp is an integer number of milliseconds (\<open>int\<close>); an amount and every
  intermediate statistic is an exact real (\<open>real\<close>), so the rounding error and the
  overflow of IEEE doubles are outside the model; a score is the \<open>int\<close> that
  \<open>Math.round\<close> returns. \<open>Math.round x\<close> is \<open>\<lfloor>x + 1/2\<rfloor>\<close>, which is \<^const>\<open>round\<close>.

  A JavaScript \<open>Map\<close> iterates in the order of first insertion and \<open>set\<close> on a present key
  overwrites in place: that is an association list under \<^const>\<open>AList.update\<close>.
  \<open>Array.prototype.sort\<close> sorts the array it is called on, in place and stably, and
  returns that same array: a function that calls it on its argument returns the
  argument's new contents next to its result.
\<close>

subsection \<open>Data model\<close>

text \<open>\<open>interface TokenTransfer\<close>; the field \<open>from\<close> is written \<open>from'\<close>.\<close>

record TokenTransfer =
  signature :: string
  timestamp :: int
  from' :: string
  to :: string
  amount :: real
  slot :: int

record Metrics =
  timingCluster :: int
  walletSimilarity :: int
  sizePatterns :: int
  distribution :: int

record Details =
  totalTransactions :: nat
  uniqueWallets :: nat
  analysisPeriod :: string
  suspiciousWallets :: nat

record Insights =
  riskLevel :: string
  primaryConcerns :: "string list"
  recommendations :: "string list"
  explanation :: string

record AnalysisResult =
  score :: int
  metrics :: Metrics
  details :: Details
  insights :: Insights

text \<open>\<open>throw new Error(msg)\<close>: the only error class the module raises.\<close>

datatype error = Error string

subsection \<open>analyzeTimeClustering\<close>

text \<open>
  The inner \<open>for (let i = 1; i < sorted.length; i++)\<close>: \<open>prev\<close> is \<open>sorted[i - 1]\<close>, the
  list argument holds \<open>sorted[i], sorted[i + 1], \<dots>\<close>; the state is the pair
  \<open>(clusters, currentCluster)\<close>.
\<close>

fun clusterLoop ::
  "int \<Rightarrow> TokenTransfer \<Rightarrow> TokenTransfer list \<Rightarrow>
   TokenTransfer list list \<times> TokenTransfer list \<Rightarrow>
   TokenTransfer list list \<times> TokenTransfer list" where
  "clusterLoop windowMs prev [] st = st"
| "clusterLoop windowMs prev (x # xs) (clusters, currentCluster) =
     (let timeDiff = timestamp x - timestamp prev in
      if timeDiff \<le> windowMs * 1000
      then clusterLoop windowMs x xs (clusters, currentCluster @ [x])
      else clusterLoop windowMs x xs
             (if length currentCluster > 1 then clusters @ [currentCluster] else clusters,
              [x]))"

text \<open>One pass of the outer loop up to the final \<open>clusters.push\<close>.\<close>

definition findClusters :: "int \<Rightarrow> TokenTransfer list \<Rightarrow> TokenTransfer list list" where
  "findClusters windowMs sorted_ts =
     (case sorted_ts of
        [] \<Rightarrow> []
      | s0 # rest \<Rightarrow>
          (let (clusters, currentCluster) = clusterLoop windowMs s0 rest ([], [s0])
           in if length currentCluster > 1 then clusters @ [currentCluster] else clusters))"

text \<open>\<open>Math.max(...clusters.map((c) => c.length), 0)\<close>\<close>

definition maxClusterSize :: "TokenTransfer list list \<Rightarrow> nat" where
  "maxClusterSize clusters = foldr max (map length clusters) 0"

definition clusterScore :: "int \<Rightarrow> TokenTransfer list \<Rightarrow> real" where
  "clusterScore windowMs sorted_ts =
     min 100 (real (maxClusterSize (findClusters windowMs sorted_ts))
                / real (length sorted_ts) * 200)"

definition timeWindows :: "int list" where
  "timeWindows = [30, 60, 300]"

definition maxClusterScore :: "TokenTransfer list \<Rightarrow> real" where
  "maxClusterScore sorted_ts =
     foldl (\<lambda>acc windowMs. max acc (clusterScore windowMs sorted_ts)) 0 timeWindows"

text \<open>
  Returns the score and the contents of the argument array after the call:
  \<open>transfers.sort(\<dots>)\<close> has reordered it unless the guard returned first.
\<close>

definition analyzeTimeClustering :: "TokenTransfer list \<Rightarrow> int \<times> TokenTransfer list" where
  "analyzeTimeClustering transfers =
     (if length transfers < 2 then (0, transfers)
      else (let sorted_ts = sort_key timestamp transfers
            in (round (maxClusterScore sorted_ts), sorted_ts)))"

subsection \<open>analyzeWalletPatterns\<close>

text \<open>\<open>walletCounts.set(transfer.to, (walletCounts.get(transfer.to) || 0) + 1)\<close>\<close>

definition walletCountsOf :: "TokenTransfer list \<Rightarrow> (string \<times> nat) list" where
  "walletCountsOf transfers =
     foldl (\<lambda>m t. AList.update (to t)
                     ((case map_of m (to t) of None \<Rightarrow> 0 | Some c \<Rightarrow> c) + 1) m)
           [] transfers"

definition analyzeWalletPatterns :: "TokenTransfer list \<Rightarrow> int" where
  "analyzeWalletPatterns transfers =
     (let counts = map (\<lambda>p. real (snd p)) (walletCountsOf transfers);
          avgTransactionsPerWallet = foldl (+) 0 counts / real (length counts);
          variance = foldl (\<lambda>acc c. acc + (c - avgTransactionsPerWallet)\<^sup>2) 0 counts
                       / real (length counts);
          coefficient = (if variance > 0 then sqrt variance / avgTransactionsPerWallet else 0)
      in round (max 0 (100 - coefficient * 50)))"

subsection \<open>analyzeTransactionSizes\<close>

definition analyzeTransactionSizes :: "TokenTransfer list \<Rightarrow> int" where
  "analyzeTransactionSizes transfers =
     (if length transfers < 2 then 0
      else (let amounts = map amount transfers;
                avg = foldl (+) 0 amounts / real (length amounts);
                variance = foldl (\<lambda>acc a. acc + (a - avg)\<^sup>2) 0 amounts
                             / real (length amounts);
                stdDev = sqrt variance;
                coefficient = (if avg > 0 then stdDev / avg else 0)
            in round (max 0 (100 - coefficient * 100))))"

subsection \<open>analyzeDistribution\<close>

text \<open>\<open>buyerAmounts.set(transfer.to, (buyerAmounts.get(transfer.to) || 0) + transfer.amount)\<close>\<close>

definition buyerAmountsOf :: "TokenTransfer list \<Rightarrow> (string \<times> real) list" where
  "buyerAmountsOf transfers =
     foldl (\<lambda>m t. AList.update (to t)
                     ((case map_of m (to t) of None \<Rightarrow> 0 | Some c \<Rightarrow> c) + amount t) m)
           [] transfers"

text \<open>The double loop \<open>gini += Math.abs(amounts[i] - amounts[j])\<close>.\<close>

definition giniSum :: "real list \<Rightarrow> real" where
  "giniSum amounts =
     foldl (\<lambda>g ai. foldl (\<lambda>g' aj. g' + \<bar>ai - aj\<bar>) g amounts) 0 amounts"

definition analyzeDistribution :: "TokenTransfer list \<Rightarrow> int" where
  "analyzeDistribution transfers =
     (let amounts = rev (sort (map snd (buyerAmountsOf transfers)));
          totalAmount = foldl (+) 0 amounts
      in if length amounts < 2 \<or> totalAmount = 0 then 0
         else (let gini = giniSum amounts / (2 * real (length amounts) * totalAmount)
               in round (gini * 100)))"

subsection \<open>countSuspiciousWallets\<close>

text \<open>
  \<open>if (!walletTimes.has(transfer.to)) walletTimes.set(transfer.to, [])\<close> and then
  \<open>walletTimes.get(transfer.to)!.push(transfer.timestamp)\<close>.
\<close>

definition walletTimesOf :: "TokenTransfer list \<Rightarrow> (string \<times> int list) list" where
  "walletTimesOf transfers =
     foldl (\<lambda>m t. AList.update (to t)
                     ((case map_of m (to t) of None \<Rightarrow> [] | Some times' \<Rightarrow> times')
                        @ [timestamp t]) m)
           [] transfers"

text \<open>
  \<open>for (let i = 1; i < times.length; i++) if (times[i] - times[i - 1] < 300000) {\<dots>; break}\<close>:
  whether the loop reaches the increment.
\<close>

fun closePair :: "int list \<Rightarrow> bool" where
  "closePair (a # b # rest) = (if b - a < 300000 then True else closePair (b # rest))"
| "closePair _ = False"

definition countSuspiciousWallets :: "TokenTransfer list \<Rightarrow> nat" where
  "countSuspiciousWallets transfers =
     foldl (\<lambda>suspicious (w, times').
              if length times' > 1
              then (if closePair (sort times') then suspicious + 1 else suspicious)
              else suspicious)
           0 (walletTimesOf transfers)"

subsection \<open>generateInsights\<close>

definition generateInsights :: "int \<Rightarrow> Metrics \<Rightarrow> Insights" where
  "generateInsights overallScore m =
     (let concerns0 = [];
          recommendations0 = [];
          (concerns1, recommendations1) =
            (if timingCluster m > 70
             then (concerns0 @ [''High coordination in transaction timing''],
                   recommendations0 @
                     [''Investigate if transactions came from known bundling services''])
             else (concerns0, recommendations0));
          (concerns2, recommendations2) =
            (if walletSimilarity m > 60
             then (concerns1 @ [''Similar wallet behavior patterns detected''],
                   recommendations1 @
                     [''Check if suspicious wallets share funding sources or creation dates''])
             else (concerns1, recommendations1));
          (concerns3, recommendations3) =
            (if sizePatterns m > 60
             then (concerns2 @ [''Automated transaction sizing patterns''],
                   recommendations2 @ [''Verify if similar amounts indicate bot activity''])
             else (concerns2, recommendations2));
          (concerns4, recommendations4) =
            (if distribution m > 70
             then (concerns3 @ [''High token concentration among few holders''],
                   recommendations3 @
                     [''Monitor large holders for potential coordinated selling''])
             else (concerns3, recommendations3));
          riskLevel =
            (if overallScore \<ge> 80 then ''High Risk''
             else if overallScore \<ge> 60 then ''Medium Risk''
             else if overallScore \<ge> 40 then ''Moderate Risk''
             else ''Low Risk'');
          explanation =
            (if overallScore \<ge> 70
             then ''Multiple indicators suggest coordinated buying activity. This could indicate bundled transactions, bot activity, or market manipulation.''
             else if overallScore \<ge> 40
             then ''Some patterns suggest possible coordination, but could also be normal market behavior during high activity periods.''
             else ''Transaction patterns appear mostly organic with natural distribution and timing.'');
          (concerns5, recommendations5) =
            (if length concerns4 = 0
             then (concerns4 @ [''No major red flags detected''],
                   recommendations4 @
                     [''Continue monitoring for any changes in trading patterns''])
             else (concerns4, recommendations4))
      in \<lparr>riskLevel = riskLevel, primaryConcerns = concerns5,
          recommendations = recommendations5, explanation = explanation\<rparr>)"

subsection \<open>getPeriodString\<close>

text \<open>The decimal rendering of a template literal \<open>`${n}`\<close> of an integer.\<close>

fun showNat :: "nat \<Rightarrow> string" where
  "showNat n =
     (if n < 10 then [char_of (48 + n)]
      else showNat (n div 10) @ [char_of (48 + n mod 10)])"

definition showInt :: "int \<Rightarrow> string" where
  "showInt i = (if i < 0 then CHR ''-'' # showNat (nat (- i)) else showNat (nat i))"

definition getPeriodString :: "TokenTransfer list \<Rightarrow> string" where
  "getPeriodString transfers =
     (if length transfers = 0 then ''0h''
      else (let times' = sort (map timestamp transfers);
                duration = last times' - hd times';
                hours = round (real_of_int duration / (1000 * 60 * 60))
            in if hours < 24 then showInt hours @ ''h''
               else showInt (round (real_of_int hours / 24)) @ ''d''))"

subsection \<open>analyzeBundlingPatterns and analyzeToken\<close>

text \<open>
  The result and the contents of the argument array after the call. \<open>uniqueWallets\<close> and
  \<open>totalTransactions\<close> are read before \<open>analyzeTimeClustering\<close> runs; every later reader
  sees the array as that call left it. The size of the \<open>Set\<close> is the number of distinct
  elements of the spread list.
\<close>

definition analyzeBundlingPatterns :: "TokenTransfer list \<Rightarrow> AnalysisResult \<times> TokenTransfer list" where
  "analyzeBundlingPatterns transfers0 =
     (let uniqueWallets = remdups (map from' transfers0 @ map to transfers0);
          totalTransactions = length transfers0;
          (timingScore, transfers) = analyzeTimeClustering transfers0;
          walletScore = analyzeWalletPatterns transfers;
          sizeScore = analyzeTransactionSizes transfers;
          distributionScore = analyzeDistribution transfers;
          overallScore = round (real_of_int timingScore * 0.4 +
                                real_of_int walletScore * 0.3 +
                                real_of_int sizeScore * 0.2 +
                                real_of_int distributionScore * 0.1);
          suspiciousWallets = countSuspiciousWallets transfers;
          m = \<lparr>timingCluster = timingScore, walletSimilarity = walletScore,
               sizePatterns = sizeScore, distribution = distributionScore\<rparr>;
          insights = generateInsights overallScore m
      in (\<lparr>score = overallScore,
           metrics = m,
           details = \<lparr>totalTransactions = totalTransactions,
                      uniqueWallets = length uniqueWallets,
                      analysisPeriod = getPeriodString transfers,
                      suspiciousWallets = suspiciousWallets\<rparr>,
           insights = insights\<rparr>,
          transfers))"

text \<open>
  \<open>analyzeToken\<close>, the module's only export. The network call \<open>getTokenTransfers\<close> is a
  parameter: \<open>fetched\<close> is what it returned (\<open>Inr\<close>) or the error it threw (\<open>Inl\<close>). The
  \<open>catch\<close> block rethrows every error of the \<open>try\<close> block, its own included, with the
  prefix \<open>Analysis failed: \<close>.
\<close>

definition analyzeToken :: "string \<Rightarrow> error + TokenTransfer list \<Rightarrow> error + AnalysisResult" where
  "analyzeToken apiKey fetched =
     (if apiKey = []
      then Inl (Error ''Helius API key is required. Please configure it in Settings.'')
      else (case fetched of
              Inl (Error msg) \<Rightarrow> Inl (Error (''Analysis failed: '' @ msg))
            | Inr transfers \<Rightarrow>
                if length transfers = 0
                then Inl (Error (''Analysis failed: '' @ ''No transactions found for this token''))
                else Inr (fst (analyzeBundlingPatterns transfers))))"


section \<open>Specification-side definitions\<close>

subsection \<open>The insight rule table\<close>

text \<open>
  The table of the specification: selector of the metric, threshold, concern,
  recommendation, in the fixed order. \<open>insightPairs fires m\<close> is the list of
  concern/recommendation pairs the table yields for the metrics \<open>m\<close> when a rule fires
  exactly if \<open>fires value threshold\<close>, with the single fallback pair when no rule fires.
  The comparison is a parameter so that the table can be read with \<open>\<ge>\<close> (the wording
  of the specification) and with \<open>>\<close> (the wording of the README: "Score >70").
\<close>

definition insightRules :: "((Metrics \<Rightarrow> int) \<times> int \<times> string \<times> string) list" where
  "insightRules =
     [(timingCluster, 70, ''High coordination in transaction timing'',
         ''Investigate if transactions came from known bundling services''),
      (walletSimilarity, 60, ''Similar wallet behavior patterns detected'',
         ''Check if suspicious wallets share funding sources or creation dates''),
      (sizePatterns, 60, ''Automated transaction sizing patterns'',
         ''Verify if similar amounts indicate bot activity''),
      (distribution, 70, ''High token concentration among few holders'',
         ''Monitor large holders for potential coordinated selling'')]"

definition insightPairs :: "(int \<Rightarrow> int \<Rightarrow> bool) \<Rightarrow> Metrics \<Rightarrow> (string \<times> string) list" where
  "insightPairs fires m =
     (let fired = filter (\<lambda>(sel, threshold, c, r). fires (sel m) threshold) insightRules
      in if fired = []
         then [(''No major red flags detected'',
                ''Continue monitoring for any changes in trading patterns'')]
         else map (\<lambda>(sel, threshold, c, r). (c, r)) fired)"

subsection \<open>Suspicious wallets\<close>

text \<open>
  The specification's count: a receiving wallet is suspicious if it has at least two
  transfers and two consecutive entries of its sorted timestamps are within 300 000 ms
  of each other; the count is the number of such wallets. "Within" is the source
  comment's word for its test \<open>times[i] - times[i - 1] < 300000\<close>: a gap of exactly
  300 000 ms is not within.
\<close>

definition walletTimestamps :: "string \<Rightarrow> TokenTransfer list \<Rightarrow> int list" where
  "walletTimestamps w transfers = sort (map timestamp (filter (\<lambda>t. to t = w) transfers))"

definition isSuspicious :: "TokenTransfer list \<Rightarrow> string \<Rightarrow> bool" where
  "isSuspicious transfers w =
     (let ts = walletTimestamps w transfers
      in length ts \<ge> 2 \<and> (\<exists>i \<in> {1..<length ts}. ts ! i - ts ! (i - 1) < 300000))"

definition suspiciousSpec :: "TokenTransfer list \<Rightarrow> nat" where
  "suspiciousSpec transfers = card {w \<in> to ` set transfers. isSuspicious transfers w}"

subsection \<open>Example transfers\<close>

text \<open>
  Four transfers to one wallet. \<open>transferA\<close> is the latest; \<open>transferC\<close> follows
  \<open>transferB\<close> by 100 ms and \<open>transferD\<close> follows it by exactly 300 000 ms.
\<close>

definition transferA :: TokenTransfer where
  "transferA = \<lparr>signature = ''sigA'', timestamp = 2000000, from' = ''alice'', to = ''carol'',
                amount = 7, slot = 2\<rparr>"

definition transferB :: TokenTransfer where
  "transferB = \<lparr>signature = ''sigB'', timestamp = 1000000, from' = ''bob'', to = ''carol'',
                amount = 3, slot = 1\<rparr>"

definition transferC :: TokenTransfer where
  "transferC = \<lparr>signature = ''sigC'', timestamp = 1000100, from' = ''bob'', to = ''carol'',
                amount = 3, slot = 1\<rparr>"

definition transferD :: TokenTransfer where
  "transferD = \<lparr>signature = ''sigD'', timestamp = 1300000, from' = ''dave'', to = ''carol'',
                amount = 5, slot = 3\<rparr>"


section \<open>Properties\<close>

subsection \<open>The result record and the argument array\<close>

lemma analyzeBundlingPatterns_metrics:
  "metrics (fst (analyzeBundlingPatterns ts)) =
     \<lparr>timingCluster = fst (analyzeTimeClustering ts),
      walletSimilarity = analyzeWalletPatterns (snd (analyzeTimeClustering ts)),
      sizePatterns = analyzeTransactionSizes (snd (analyzeTimeClustering ts)),
      distribution = analyzeDistribution (snd (analyzeTimeClustering ts))\<rparr>"
  by (simp add: analyzeBundlingPatterns_def Let_def case_prod_beta)

lemma analyzeBundlingPatterns_score:
  "score (fst (analyzeBundlingPatterns ts)) =
     round (real_of_int (timingCluster (metrics (fst (analyzeBundlingPatterns ts)))) * 0.4 +
            real_of_int (walletSimilarity (metrics (fst (analyzeBundlingPatterns ts)))) * 0.3 +
            real_of_int (sizePatterns (metrics (fst (analyzeBundlingPatterns ts)))) * 0.2 +
            real_of_int (distribution (metrics (fst (analyzeBundlingPatterns ts)))) * 0.1)"
  by (simp add: analyzeBundlingPatterns_def Let_def case_prod_beta)

lemma analyzeBundlingPatterns_insights:
  "insights (fst (analyzeBundlingPatterns ts)) =
     generateInsights (score (fst (analyzeBundlingPatterns ts)))
                      (metrics (fst (analyzeBundlingPatterns ts)))"
  by (simp add: analyzeBundlingPatterns_def Let_def case_prod_beta)

lemma analyzeBundlingPatterns_details:
  "details (fst (analyzeBundlingPatterns ts)) =
     \<lparr>totalTransactions = length ts,
      uniqueWallets = length (remdups (map from' ts @ map to ts)),
      analysisPeriod = getPeriodString (snd (analyzeTimeClustering ts)),
      suspiciousWallets = countSuspiciousWallets (snd (analyzeTimeClustering ts))\<rparr>"
  by (simp add: analyzeBundlingPatterns_def Let_def case_prod_beta)

lemma analyzeBundlingPatterns_array:
  "snd (analyzeBundlingPatterns ts) = snd (analyzeTimeClustering ts)"
  by (simp add: analyzeBundlingPatterns_def Let_def case_prod_beta)

lemma analyzeTimeClustering_array:
  "snd (analyzeTimeClustering ts) = (if length ts < 2 then ts else sort_key timestamp ts)"
  by (simp add: analyzeTimeClustering_def Let_def)

text \<open>The sort permutes the array: nothing is added, dropped or rewritten.\<close>

lemma analyzeTimeClustering_mset: "mset (snd (analyzeTimeClustering ts)) = mset ts"
  by (simp add: analyzeTimeClustering_array)

lemma analyzeTimeClustering_set: "set (snd (analyzeTimeClustering ts)) = set ts"
  using analyzeTimeClustering_mset[of ts] by (metis set_mset_mset)

lemma analyzeToken_nonempty:
  "apiKey \<noteq> [] \<Longrightarrow> transfers \<noteq> [] \<Longrightarrow>
     analyzeToken apiKey (Inr transfers) = Inr (fst (analyzeBundlingPatterns transfers))"
  by (simp add: analyzeToken_def)

subsection \<open>The \<open>reduce\<close> loops as sums\<close>




subsection \<open>Ranges of the four sub-scores\<close>







lemma foldl_update_keys:
  "distinct (map fst m0) \<Longrightarrow>
   distinct (map fst (foldl (\<lambda>m t. AList.update (key t) (f m t) m) m0 ts)) \<and>
   fst ` set (foldl (\<lambda>m t. AList.update (key t) (f m t) m) m0 ts) = fst ` set m0 \<union> key ` set ts"
proof (induction ts arbitrary: m0)
  case Nil
  then show ?case by simp
next
  case (Cons t ts)
  have d: "distinct (map fst (AList.update (key t) (f m0 t) m0))"
    using Cons.prems by (rule distinct_update)
  show ?case
    using Cons.IH[OF d] by (auto simp: dom_update)
qed









subsection \<open>Score and metrics of a non-empty list\<close>





subsection \<open>The empty list\<close>

text \<open>
  C3. When the list of transfer records is empty, the analysis fails with an error and
  returns no result: \<open>analyzeToken\<close> throws \<open>No transactions found for this token\<close>, which
  its \<open>catch\<close> block rethrows under the prefix \<open>Analysis failed: \<close> (and it has thrown
  the missing-key error before that when the API key is empty).
\<close>

theorem analyzeToken_empty_fails:
  "analyzeToken apiKey (Inr []) =
     Inl (Error (if apiKey = []
                 then ''Helius API key is required. Please configure it in Settings.''
                 else ''Analysis failed: No transactions found for this token''))"
  by (simp add: analyzeToken_def)


subsection \<open>Insufficient data\<close>

text \<open>
  \<open>analyzeTimeClustering\<close> and \<open>analyzeTransactionSizes\<close> open with the guard
  \<open>if (transfers.length < 2) return 0\<close>, and \<open>analyzeDistribution\<close> returns 0 when
  fewer than two wallets received anything.
\<close>

lemma buyerAmountsOf_keys:
  "distinct (map fst (buyerAmountsOf ts)) \<and> fst ` set (buyerAmountsOf ts) = to ` set ts"
  unfolding buyerAmountsOf_def
  using foldl_update_keys[of "[]" to _ ts] by simp

lemma length_buyerAmountsOf: "length (buyerAmountsOf ts) = card (to ` set ts)"
proof -
  have "length (buyerAmountsOf ts) = length (map fst (buyerAmountsOf ts))" by simp
  also have "\<dots> = card (set (map fst (buyerAmountsOf ts)))"
    using buyerAmountsOf_keys[of ts] by (simp only: distinct_card)
  also have "\<dots> = card (to ` set ts)"
    using buyerAmountsOf_keys[of ts] by simp
  finally show ?thesis .
qed

lemma distribution_few_wallets: "card (to ` set ts) < 2 \<Longrightarrow> analyzeDistribution ts = 0"
  by (simp add: analyzeDistribution_def Let_def length_buyerAmountsOf)

lemma guarded_subscores_zero:
  assumes "length ts < 2"
  shows "fst (analyzeTimeClustering ts) = 0" "analyzeTransactionSizes ts = 0"
    "analyzeDistribution ts = 0"
proof -
  show "fst (analyzeTimeClustering ts) = 0" "analyzeTransactionSizes ts = 0"
    using assms by (simp_all add: analyzeTimeClustering_def analyzeTransactionSizes_def)
  have "card (to ` set ts) \<le> card (set ts)" by (rule card_image_le) simp
  also have "\<dots> \<le> length ts" by (rule card_length)
  finally show "analyzeDistribution ts = 0"
    using assms by (intro distribution_few_wallets) simp
qed

text \<open>
  \<open>analyzeWalletPatterns\<close> has no such guard. One transfer gives the counts \<open>[1]\<close>,
  variance 0, coefficient 0 and the score \<open>Math.round(Math.max(0, 100 - 0))\<close>.
\<close>

lemma analyzeWalletPatterns_single: "analyzeWalletPatterns [t] = 100"
  by (simp add: analyzeWalletPatterns_def walletCountsOf_def Let_def)

text \<open>
  C4. Every sub-score function returns 0 on fewer than two data points; in particular
  each of the four sub-scores of a single-element list is 0. The code at the
  single-element list \<open>[transferA]\<close>: timing, size and distribution are 0, the
  wallet-similarity score is 100.
\<close>

theorem wallet_score_single_transfer:
  "fst (analyzeTimeClustering [transferA]) = 0 \<and>
   analyzeTransactionSizes [transferA] = 0 \<and>
   analyzeDistribution [transferA] = 0 \<and>
   analyzeWalletPatterns [transferA] = 100 \<and>
   walletSimilarity (metrics (fst (analyzeBundlingPatterns [transferA]))) = 100"
  unfolding analyzeBundlingPatterns_metrics
  by (simp add: guarded_subscores_zero analyzeTimeClustering_array analyzeWalletPatterns_single)

subsection \<open>Insights\<close>

lemma generateInsights_pairs:
  "primaryConcerns (generateInsights sc m) =
     map fst (insightPairs (\<lambda>v threshold. v > threshold) m) \<and>
   recommendations (generateInsights sc m) =
     map snd (insightPairs (\<lambda>v threshold. v > threshold) m)"
  by (simp add: generateInsights_def insightPairs_def insightRules_def Let_def)

lemma metricsAB:
  "metrics (fst (analyzeBundlingPatterns [transferA, transferB])) =
     \<lparr>timingCluster = 0, walletSimilarity = 100, sizePatterns = 60, distribution = 0\<rparr>"
  unfolding analyzeBundlingPatterns_metrics
  by (simp add: transferA_def transferB_def analyzeTimeClustering_def maxClusterScore_def
       timeWindows_def clusterScore_def findClusters_def maxClusterSize_def
       analyzeTransactionSizes_def analyzeWalletPatterns_def walletCountsOf_def
       analyzeDistribution_def buyerAmountsOf_def giniSum_def Let_def)

text \<open>
  C5, as stated (each rule fires when its metric is \<open>\<ge>\<close> its threshold), fails on the
  transfers \<open>[transferA, transferB]\<close> of amounts 7 and 3: the size metric is exactly 60,
  and the concerns are not those of the table read with \<open>\<ge>\<close>.
\<close>

theorem insights_threshold_counterexample:
  "sizePatterns (metrics (fst (analyzeBundlingPatterns [transferA, transferB]))) = 60 \<and>
   primaryConcerns (insights (fst (analyzeBundlingPatterns [transferA, transferB])))
     \<noteq> map fst (insightPairs (\<lambda>v threshold. v \<ge> threshold)
                   (metrics (fst (analyzeBundlingPatterns [transferA, transferB]))))"
  unfolding analyzeBundlingPatterns_insights[of "[transferA, transferB]"] metricsAB
  by (simp add: generateInsights_def insightPairs_def insightRules_def Let_def)

text \<open>
  C5, amended. For every non-empty transfer list the insight list is produced by the
  fixed rule table in order, each rule firing exactly when its metric is strictly
  greater than its threshold (timing \<open>> 70\<close>, wallet \<open>> 60\<close>, size \<open>> 60\<close>, distribution
  \<open>> 70\<close>); if no rule fires, exactly the one fallback pair is emitted; and
  \<open>primaryConcerns\<close> and \<open>recommendations\<close> have equal length with index-paired entries.
\<close>

theorem insights_rule_table:
  assumes "transfers \<noteq> []"
  shows "(let r = fst (analyzeBundlingPatterns transfers);
              pairs = insightPairs (\<lambda>v threshold. v > threshold) (metrics r)
          in primaryConcerns (insights r) = map fst pairs \<and>
             recommendations (insights r) = map snd pairs \<and>
             length (primaryConcerns (insights r)) = length (recommendations (insights r)))"
  unfolding Let_def analyzeBundlingPatterns_insights[of transfers]
  using generateInsights_pairs by simp

theorem insights_rule_table_witness:
  "[transferA, transferB] \<noteq> [] \<and>
   primaryConcerns (insights (fst (analyzeBundlingPatterns [transferA, transferB]))) =
     [''Similar wallet behavior patterns detected''] \<and>
   recommendations (insights (fst (analyzeBundlingPatterns [transferA, transferB]))) =
     [''Check if suspicious wallets share funding sources or creation dates'']"
  using insights_rule_table[of "[transferA, transferB]"]
  by (simp add: Let_def metricsAB insightPairs_def insightRules_def)


subsection \<open>The timing score depends on the timestamps only\<close>

lemma clusterLoop_timestamps:
  assumes "map timestamp xs = map timestamp ys" "timestamp p = timestamp q"
    "map length cl = map length cl'" "length cur = length cur'"
  shows "map length (fst (clusterLoop w p xs (cl, cur))) =
           map length (fst (clusterLoop w q ys (cl', cur'))) \<and>
         length (snd (clusterLoop w p xs (cl, cur))) =
           length (snd (clusterLoop w q ys (cl', cur')))"
  using assms
proof (induction xs arbitrary: ys p q cl cl' cur cur')
  case Nil
  then show ?case by simp
next
  case (Cons x xs)
  from Cons.prems(1) obtain y ys' where ys: "ys = y # ys'" "timestamp x = timestamp y"
    "map timestamp xs = map timestamp ys'" by (cases ys) auto
  show ?case
  proof (cases "timestamp x - timestamp p \<le> w * 1000")
    case True
    then have "timestamp y - timestamp q \<le> w * 1000" using ys Cons.prems(2) by simp
    with True show ?thesis
      using Cons.IH[OF ys(3) ys(2) Cons.prems(3), of "cur @ [x]" "cur' @ [y]" ] Cons.prems(4)
      by (simp add: ys(1))
  next
    case False
    then have F: "\<not> timestamp y - timestamp q \<le> w * 1000" using ys Cons.prems(2) by simp
    have cl: "map length (if length cur > 1 then cl @ [cur] else cl)
            = map length (if length cur' > 1 then cl' @ [cur'] else cl')"
      using Cons.prems(3,4) by simp
    show ?thesis
      using Cons.IH[OF ys(3) ys(2) cl, of "[x]" "[y]"] False F
      by (simp add: ys(1))
  qed
qed

lemma findClusters_timestamps:
  assumes "map timestamp xs = map timestamp ys"
  shows "map length (findClusters w xs) = map length (findClusters w ys)"
proof (cases xs)
  case Nil
  with assms show ?thesis by simp
next
  case (Cons x xs')
  with assms obtain y ys' where ys: "ys = y # ys'" "timestamp x = timestamp y"
    "map timestamp xs' = map timestamp ys'" by (cases ys) auto
  have "map length (fst (clusterLoop w x xs' ([], [x]))) =
          map length (fst (clusterLoop w y ys' ([], [y]))) \<and>
        length (snd (clusterLoop w x xs' ([], [x]))) =
          length (snd (clusterLoop w y ys' ([], [y])))"
    by (rule clusterLoop_timestamps[OF ys(3) ys(2)]) simp_all
  then show ?thesis
    by (simp add: findClusters_def Cons ys(1) case_prod_beta)
qed

lemma maxClusterScore_timestamps:
  assumes "map timestamp xs = map timestamp ys"
  shows "maxClusterScore xs = maxClusterScore ys"
proof -
  have "length xs = length ys" using assms by (rule map_eq_imp_length_eq)
  then show ?thesis
    unfolding maxClusterScore_def clusterScore_def maxClusterSize_def
    by (simp add: findClusters_timestamps[OF assms])
qed

lemma map_sort_key: "map f (sort_key f xs) = sort (map f xs)"
  by (rule properties_for_sort[symmetric]) simp_all

text \<open>
  C6. The timing-cluster sub-score is invariant under permuting the input transfer
  list: a list \<open>ys\<close> with the same elements as \<open>xs\<close>, each as often, in whatever order,
  gets the score of \<open>xs\<close>.
\<close>

theorem timing_permutation_invariant:
  assumes "mset ys = mset xs"
  shows "fst (analyzeTimeClustering ys) = fst (analyzeTimeClustering xs)"
proof -
  have len: "length ys = length xs" using assms by (rule mset_eq_length)
  have "mset (map timestamp ys) = mset (map timestamp xs)" using assms by simp
  then have "sort (map timestamp ys) = sort (map timestamp xs)"
    by (metis sorted_list_of_multiset_mset)
  then have "map timestamp (sort_key timestamp ys) = map timestamp (sort_key timestamp xs)"
    by (simp add: map_sort_key)
  then have "maxClusterScore (sort_key timestamp ys) = maxClusterScore (sort_key timestamp xs)"
    by (rule maxClusterScore_timestamps)
  then show ?thesis by (simp add: analyzeTimeClustering_def Let_def len)
qed

theorem timing_permutation_invariant_witness:
  "mset [transferC, transferA, transferB] = mset [transferA, transferB, transferC] \<and>
   fst (analyzeTimeClustering [transferC, transferA, transferB]) =
     fst (analyzeTimeClustering [transferA, transferB, transferC])"
  using timing_permutation_invariant[of "[transferC, transferA, transferB]"
                                         "[transferA, transferB, transferC]"]
  by (simp add: union_commute)

subsection \<open>The argument array after the call\<close>

text \<open>
  C7. The engine never mutates its input: the list passed in has the same element
  order after the call. The code on \<open>[transferA, transferB]\<close>, whose later transfer
  comes first: \<open>transfers.sort\<close> in \<open>analyzeTimeClustering\<close> has swapped the two
  elements of the caller's array when \<open>analyzeBundlingPatterns\<close> returns.
\<close>

theorem input_array_reordered:
  "snd (analyzeBundlingPatterns [transferA, transferB]) = [transferB, transferA] \<and>
   [transferB, transferA] \<noteq> [transferA, transferB]"
  unfolding analyzeBundlingPatterns_array
  by (simp add: analyzeTimeClustering_def Let_def transferA_def transferB_def)

subsection \<open>The worked example\<close>

text \<open>
  C8. For exactly three transfer records, all of amount 100, to three distinct
  receiving wallets, with timestamps 0 ms, 1000 ms and 2000 ms, the analysis returns
  timing score 100, size score 100, wallet score 100, distribution score 0, composite
  score 90 and the risk level "High Risk" (whatever the signatures, senders and slots).
\<close>

theorem example_three_transfers:
  assumes "distinct [w1, w2, w3]"
  shows "(let r = fst (analyzeBundlingPatterns
            [\<lparr>signature = s1, timestamp = 0, from' = f1, to = w1, amount = 100, slot = l1\<rparr>,
             \<lparr>signature = s2, timestamp = 1000, from' = f2, to = w2, amount = 100, slot = l2\<rparr>,
             \<lparr>signature = s3, timestamp = 2000, from' = f3, to = w3, amount = 100, slot = l3\<rparr>])
          in timingCluster (metrics r) = 100 \<and> sizePatterns (metrics r) = 100 \<and>
             walletSimilarity (metrics r) = 100 \<and> distribution (metrics r) = 0 \<and>
             score r = 90 \<and> riskLevel (insights r) = ''High Risk'')"
proof -
  define r where "r = fst (analyzeBundlingPatterns
            [\<lparr>signature = s1, timestamp = 0, from' = f1, to = w1, amount = 100, slot = l1\<rparr>,
             \<lparr>signature = s2, timestamp = 1000, from' = f2, to = w2, amount = 100, slot = l2\<rparr>,
             \<lparr>signature = s3, timestamp = 2000, from' = f3, to = w3, amount = 100, slot = l3\<rparr>])"
  have ne: "w1 \<noteq> w2" "w2 \<noteq> w1" "w1 \<noteq> w3" "w3 \<noteq> w1" "w2 \<noteq> w3" "w3 \<noteq> w2"
    using assms by auto
  have m: "metrics r =
    \<lparr>timingCluster = 100, walletSimilarity = 100, sizePatterns = 100, distribution = 0\<rparr>"
    unfolding r_def analyzeBundlingPatterns_metrics
    by (simp add: ne analyzeTimeClustering_def maxClusterScore_def timeWindows_def
         clusterScore_def findClusters_def maxClusterSize_def analyzeTransactionSizes_def
         analyzeWalletPatterns_def walletCountsOf_def analyzeDistribution_def
         buyerAmountsOf_def giniSum_def Let_def)
  have s: "score r = 90"
    using m unfolding r_def analyzeBundlingPatterns_score by simp
  have "riskLevel (insights r) = ''High Risk''"
    using s unfolding r_def analyzeBundlingPatterns_insights
    by (simp add: generateInsights_def Let_def case_prod_beta)
  with m s show ?thesis unfolding Let_def r_def[symmetric] by simp
qed

theorem example_three_transfers_witness:
  "distinct [''w1'', ''w2'', ''w3''] \<and>
   score (fst (analyzeBundlingPatterns
     [\<lparr>signature = ''s1'', timestamp = 0, from' = ''f1'', to = ''w1'', amount = 100, slot = 1\<rparr>,
      \<lparr>signature = ''s2'', timestamp = 1000, from' = ''f2'', to = ''w2'', amount = 100, slot = 2\<rparr>,
      \<lparr>signature = ''s3'', timestamp = 2000, from' = ''f3'', to = ''w3'', amount = 100, slot = 3\<rparr>]))
     = 90"
  using example_three_transfers[of "''w1''" "''w2''" "''w3''" "''s1''" "''f1''" 1
                                   "''s2''" "''f2''" 2 "''s3''" "''f3''" 3]
  by (simp add: Let_def)


subsection \<open>Suspicious wallets\<close>

lemma walletTimesOf_snoc:
  "walletTimesOf (ts @ [t]) =
     AList.update (to t)
       ((case map_of (walletTimesOf ts) (to t) of None \<Rightarrow> [] | Some x \<Rightarrow> x) @ [timestamp t])
       (walletTimesOf ts)"
  by (simp add: walletTimesOf_def)

lemma walletTimesOf_keys:
  "distinct (map fst (walletTimesOf ts)) \<and> fst ` set (walletTimesOf ts) = to ` set ts"
  unfolding walletTimesOf_def
  using foldl_update_keys[of "[]" to _ ts] by simp

text \<open>The entry of a wallet holds the timestamps of its transfers, in input order.\<close>

lemma walletTimesOf_lookup:
  "map_of (walletTimesOf ts) w =
     (if w \<in> to ` set ts then Some (map timestamp (filter (\<lambda>t. to t = w) ts)) else None)"
proof (induction ts arbitrary: w rule: rev_induct)
  case Nil
  then show ?case by (simp add: walletTimesOf_def)
next
  case (snoc t ts)
  have none: "filter (\<lambda>x. to x = to t) ts = []" if "to t \<notin> to ` set ts"
  proof -
    from that have "\<forall>x \<in> set ts. to x \<noteq> to t" by (metis imageI)
    then show ?thesis by (simp add: filter_empty_conv)
  qed
  show ?case
    unfolding walletTimesOf_snoc update_conv'
    using none by (auto simp: snoc.IH)
qed

text \<open>The loop with \<open>break\<close> finds a close pair exactly if one exists.\<close>

lemma closePair_iff:
  "closePair xs \<longleftrightarrow> (\<exists>i \<in> {1..<length xs}. xs ! i - xs ! (i - 1) < 300000)"
proof (induction xs rule: closePair.induct)
  case (1 a b rest)
  show ?case
  proof (cases "b - a < 300000")
    case True
    then have "(a # b # rest) ! 1 - (a # b # rest) ! (1 - 1) < 300000" by simp
    moreover have "(1::nat) \<in> {1..<length (a # b # rest)}" by simp
    ultimately show ?thesis using True by (metis closePair.simps(1))
  next
    case False
    have "(\<exists>i \<in> {1..<length (a # b # rest)}.
             (a # b # rest) ! i - (a # b # rest) ! (i - 1) < 300000)
        \<longleftrightarrow> (\<exists>i \<in> {1..<length (b # rest)}. (b # rest) ! i - (b # rest) ! (i - 1) < 300000)"
      (is "?L \<longleftrightarrow> ?R")
    proof
      assume ?L
      then obtain i where i: "1 \<le> i" "i < length (a # b # rest)"
        "(a # b # rest) ! i - (a # b # rest) ! (i - 1) < 300000" by auto
      with False have "i \<noteq> 1" by auto
      with i obtain j where j: "i = Suc j" "1 \<le> j" by (cases i) auto
      with i have "j < length (b # rest)" "(b # rest) ! j - (b # rest) ! (j - 1) < 300000"
        by (auto simp: nth_Cons')
      with j show ?R by auto
    next
      assume ?R
      then obtain j where j: "1 \<le> j" "j < length (b # rest)"
        "(b # rest) ! j - (b # rest) ! (j - 1) < 300000" by auto
      then have "Suc j \<in> {1..<length (a # b # rest)}"
        "(a # b # rest) ! Suc j - (a # b # rest) ! (Suc j - 1) < 300000"
        by (auto simp: nth_Cons')
      then show ?L by blast
    qed
    with False 1 show ?thesis by simp
  qed
qed simp_all

lemma foldl_count:
  "foldl (\<lambda>s p. if Q p then s + 1 else s) (n::nat) m = n + length (filter Q m)"
  by (induction m arbitrary: n) simp_all

lemma countSuspiciousWallets_filter:
  "countSuspiciousWallets ts =
     length (filter (\<lambda>p. length (snd p) > 1 \<and> closePair (sort (snd p))) (walletTimesOf ts))"
proof -
  have eq: "(\<lambda>suspicious (w, times'). if length times' > 1
              then (if closePair (sort times') then suspicious + 1 else suspicious)
              else suspicious)
      = (\<lambda>s p. if length (snd p) > 1 \<and> closePair (sort (snd p)) then s + 1 else (s::nat))"
    by (auto simp: fun_eq_iff)
  show ?thesis
    unfolding countSuspiciousWallets_def eq foldl_count by simp
qed

lemma countSuspiciousWallets_le: "countSuspiciousWallets ts \<le> card (to ` set ts)"
proof -
  have "countSuspiciousWallets ts \<le> length (walletTimesOf ts)"
    unfolding countSuspiciousWallets_filter by (rule length_filter_le)
  also have "\<dots> = length (map fst (walletTimesOf ts))" by simp
  also have "\<dots> = card (set (map fst (walletTimesOf ts)))"
    using walletTimesOf_keys[of ts] by (simp only: distinct_card)
  also have "\<dots> = card (to ` set ts)"
    using walletTimesOf_keys[of ts] by simp
  finally show ?thesis .
qed

text \<open>Two transfers to one wallet exactly 300 000 ms apart are not counted.\<close>

lemma countSuspiciousWallets_boundary: "countSuspiciousWallets [transferB, transferD] = 0"
  by (simp add: countSuspiciousWallets_def walletTimesOf_def transferB_def transferD_def)

lemma countSuspiciousWallets_BC: "countSuspiciousWallets [transferB, transferC] = 1"
  by (simp add: countSuspiciousWallets_def walletTimesOf_def transferB_def transferC_def)


text \<open>
  C9. For every transfer list, the suspicious-wallet count equals the number of
  receiving wallets that have at least two transfers and for which some pair of
  consecutive sorted timestamps is within 300 000 ms of each other (less than
  300 000 ms apart), each qualifying wallet counted once however many such pairs it has.
\<close>

theorem countSuspiciousWallets_spec:
  "countSuspiciousWallets transfers = suspiciousSpec transfers"
proof -
  let ?m = "walletTimesOf transfers"
  let ?Q = "\<lambda>p. length (snd p) > 1 \<and> closePair (sort (snd p))"
  have dk: "distinct (map fst ?m)" and keys: "fst ` set ?m = to ` set transfers"
    using walletTimesOf_keys[of transfers] by simp_all
  from dk have dm: "distinct ?m" and inj: "inj_on fst (set ?m)"
    by (simp_all add: distinct_map)
  have val: "snd p = map timestamp (filter (\<lambda>t. to t = fst p) transfers)" if "p \<in> set ?m" for p
  proof -
    from that dk have "map_of ?m (fst p) = Some (snd p)" by simp
    then show ?thesis by (simp add: walletTimesOf_lookup split: if_splits)
  qed
  have Q: "?Q p \<longleftrightarrow> isSuspicious transfers (fst p)" if "p \<in> set ?m" for p
    unfolding isSuspicious_def walletTimestamps_def Let_def val[OF that, symmetric] closePair_iff
    by auto
  have img: "fst ` set (filter ?Q ?m) = {w \<in> to ` set transfers. isSuspicious transfers w}"
  proof (intro set_eqI iffI)
    fix w assume "w \<in> fst ` set (filter ?Q ?m)"
    then obtain p where p: "p \<in> set ?m" "?Q p" "w = fst p" by auto
    then have "isSuspicious transfers w" using Q by simp
    moreover have "w \<in> to ` set transfers" using p keys by auto
    ultimately show "w \<in> {w \<in> to ` set transfers. isSuspicious transfers w}" by simp
  next
    fix w assume "w \<in> {w \<in> to ` set transfers. isSuspicious transfers w}"
    then have w: "w \<in> fst ` set ?m" "isSuspicious transfers w" using keys by simp_all
    then obtain p where p: "p \<in> set ?m" "w = fst p" by auto
    with w Q have "?Q p" by simp
    with p show "w \<in> fst ` set (filter ?Q ?m)" by auto
  qed
  have "countSuspiciousWallets transfers = length (filter ?Q ?m)"
    by (rule countSuspiciousWallets_filter)
  also have "\<dots> = card (set (filter ?Q ?m))"
    by (rule distinct_card[symmetric]) (simp add: dm)
  also have "\<dots> = card (fst ` set (filter ?Q ?m))"
    using inj by (intro card_image[symmetric]) (auto intro: inj_on_subset)
  also have "\<dots> = suspiciousSpec transfers"
    unfolding suspiciousSpec_def img ..
  finally show ?thesis .
qed

theorem countSuspiciousWallets_spec_witness:
  "countSuspiciousWallets [transferB, transferC] = 1 \<and> suspiciousSpec [transferB, transferC] = 1"
  using countSuspiciousWallets_spec[of "[transferB, transferC]"] countSuspiciousWallets_BC
  by simp

subsection \<open>The details of the result\<close>

text \<open>
  C10. For every non-empty transfer list, the returned details satisfy
  \<open>suspiciousWallets \<le>\<close> number of distinct receiving (\<open>to\<close>) addresses
  \<open>\<le> uniqueWallets \<le> totalTransactions \<cdot> 2\<close>, and \<open>totalTransactions\<close> is the length
  of the input list.
\<close>

theorem details_invariants:
  assumes "transfers \<noteq> []"
  shows "(let d = details (fst (analyzeBundlingPatterns transfers))
          in suspiciousWallets d \<le> card (to ` set transfers) \<and>
             card (to ` set transfers) \<le> uniqueWallets d \<and>
             uniqueWallets d \<le> totalTransactions d * 2 \<and>
             totalTransactions d = length transfers)"
proof -
  define d where "d = details (fst (analyzeBundlingPatterns transfers))"
  let ?a = "snd (analyzeTimeClustering transfers)"
  have "countSuspiciousWallets ?a \<le> card (to ` set ?a)" by (rule countSuspiciousWallets_le)
  then have s: "suspiciousWallets d \<le> card (to ` set transfers)"
    by (simp add: d_def analyzeBundlingPatterns_details analyzeTimeClustering_set)
  have u: "uniqueWallets d = card (from' ` set transfers \<union> to ` set transfers)"
    by (simp add: d_def analyzeBundlingPatterns_details length_remdups_card_conv)
  have "card (to ` set transfers) \<le> card (from' ` set transfers \<union> to ` set transfers)"
    by (rule card_mono) simp_all
  moreover have "uniqueWallets d \<le> length (map from' transfers @ map to transfers)"
    unfolding d_def analyzeBundlingPatterns_details
    by (simp only: Details.simps length_remdups_leq)
  moreover have "totalTransactions d = length transfers"
    by (simp add: d_def analyzeBundlingPatterns_details)
  ultimately show ?thesis unfolding Let_def d_def[symmetric] using s u by simp
qed

theorem details_invariants_witness:
  "[transferB, transferC] \<noteq> [] \<and>
   suspiciousWallets (details (fst (analyzeBundlingPatterns [transferB, transferC])))
     \<le> card (to ` set [transferB, transferC]) \<and>
   card (to ` set [transferB, transferC])
     \<le> uniqueWallets (details (fst (analyzeBundlingPatterns [transferB, transferC]))) \<and>
   uniqueWallets (details (fst (analyzeBundlingPatterns [transferB, transferC]))) \<le> 4 \<and>
   totalTransactions (details (fst (analyzeBundlingPatterns [transferB, transferC]))) = 2"
  using details_invariants[of "[transferB, transferC]"] by (simp add: Let_def)

end
